theory Spec2Isabelle
  imports Complex_Main
begin

section \<open>Decimal arithmetic of decimal.js\<close>

text \<open>
  The calculator works on \<open>Decimal\<close> values of the decimal.js library and on timestamps that
  are integer seconds. A finite \<open>Decimal\<close> is a rational number, and the constructor
  \<open>new Decimal(v)\<close> keeps every digit of \<open>v\<close>. The methods \<open>add\<close>, \<open>sub\<close> and \<open>mul\<close> compute
  the exact result and round it to \<open>Decimal.precision\<close> significant digits with the rounding
  mode \<open>Decimal.rounding\<close>; the calculator never changes the library's defaults, which are
  20 digits and \<open>ROUND_HALF_UP\<close> (to the nearest, a tie away from zero).

  \<open>roundSignificant\<close> rounds a positive number: it scales by 10 until the number lies in
  the interval from 10^19 (included) to 10^20 (excluded), rounds to the nearest integer there with a tie going up, and scales
  back. \<open>finalise\<close> (the library's name for the rounding step) extends it to every sign.
  \<open>isNegative\<close> is \<open>x < 0\<close> and \<open>gt(0)\<close> is \<open>0 < x\<close>.

  Left out are the non-finite values \<open>NaN\<close> and \<open>Infinity\<close>, which no numeric input
  produces, the exponent limits of the library (exponents beyond 9e15 in size) and the sign
  of zero (\<open>-0\<close> is negative for \<open>isNegative\<close>, and the calculator then replaces it by
  \<open>0\<close>, the same number). A timestamp is an \<open>int\<close>; the difference of two timestamps is
  converted with \<open>of_int\<close>, as \<open>new Decimal(endTime - endSnap.timestamp)\<close> does.
\<close>

type_synonym Decimal = rat

function roundSignificant :: "rat \<Rightarrow> rat" where
  "roundSignificant y =
     (if y \<le> 0 then 0
      else if 10 ^ 20 \<le> y then 10 * roundSignificant (y / 10)
      else if y < 10 ^ 19 then roundSignificant (10 * y) / 10
      else of_int \<lfloor>y + 1 / 2\<rfloor>)"
  by pat_completeness auto
termination
proof (relation "measure (\<lambda>y. if y < 10 ^ 19 then nat \<lceil>10 ^ 19 / y\<rceil> + 10 ^ 20 else nat \<lfloor>y\<rfloor>)")
  show "wf (measure (\<lambda>y::rat. if y < 10 ^ 19 then nat \<lceil>10 ^ 19 / y\<rceil> + 10 ^ 20 else nat \<lfloor>y\<rfloor>))"
    by simp
next
  fix y :: rat
  assume "\<not> y \<le> 0" and big: "10 ^ 20 \<le> y"
  have "\<lfloor>y / 10\<rfloor> < \<lfloor>y\<rfloor>"
  proof -
    have "y / 10 + 1 \<le> y" using big by simp
    then have "\<lfloor>y / 10\<rfloor> + 1 \<le> \<lfloor>y\<rfloor>"
      by (metis floor_add_int floor_mono of_int_1)
    then show ?thesis by simp
  qed
  moreover have "0 \<le> \<lfloor>y / 10\<rfloor>" using big by simp
  moreover have "\<not> y / 10 < 10 ^ 19" using big by simp
  moreover have "\<not> y < 10 ^ 19" using big by simp
  ultimately show "(y / 10, y) \<in> measure (\<lambda>y. if y < 10 ^ 19 then nat \<lceil>10 ^ 19 / y\<rceil> + 10 ^ 20 else nat \<lfloor>y\<rfloor>)"
    by simp
next
  fix y :: rat
  assume pos: "\<not> y \<le> 0" and "\<not> 10 ^ 20 \<le> y" and small: "y < 10 ^ 19"
  show "(10 * y, y) \<in> measure (\<lambda>y. if y < 10 ^ 19 then nat \<lceil>10 ^ 19 / y\<rceil> + 10 ^ 20 else nat \<lfloor>y\<rfloor>)"
  proof (cases "10 * y < 10 ^ 19")
    case True
    define t where "t = 10 ^ 19 / y"
    have t10: "10 < t" using True pos by (simp add: t_def pos_less_divide_eq)
    have eq: "10 ^ 19 / (10 * y) = t / 10" by (simp add: t_def)
    have "t / 10 + 1 \<le> t" using t10 by simp
    then have "\<lceil>t / 10\<rceil> + 1 \<le> \<lceil>t\<rceil>"
      by (metis ceiling_add_one ceiling_mono)
    moreover have "0 < \<lceil>t / 10\<rceil>" using t10 by simp
    ultimately have "nat \<lceil>t / 10\<rceil> < nat \<lceil>t\<rceil>" by simp
    then show ?thesis using True small by (simp add: eq t_def)
  next
    case False
    have "10 * y < 10 ^ 20" using small by simp
    then have "\<lfloor>10 * y\<rfloor> < 10 ^ 20"
      by (simp add: floor_less_iff)
    then have "nat \<lfloor>10 * y\<rfloor> < nat (10 ^ 20)"
      using pos by (simp add: nat_less_iff)
    then show ?thesis using False small by simp
  qed
qed

definition finalise :: "rat \<Rightarrow> Decimal" where
  "finalise x = (if x < 0 then - roundSignificant (- x) else roundSignificant x)"

definition Decimal_add :: "Decimal \<Rightarrow> Decimal \<Rightarrow> Decimal" where
  "Decimal_add x y = finalise (x + y)"

definition Decimal_sub :: "Decimal \<Rightarrow> Decimal \<Rightarrow> Decimal" where
  "Decimal_sub x y = finalise (x - y)"

definition Decimal_mul :: "Decimal \<Rightarrow> Decimal \<Rightarrow> Decimal" where
  "Decimal_mul x y = finalise (x * y)"

text \<open>A number that the rounding leaves as it is: it has at most 20 significant digits.\<close>

definition withinPrecision :: "rat \<Rightarrow> bool" where
  "withinPrecision x \<longleftrightarrow> finalise x = x"

section \<open>Data model of the points calculator\<close>

record PerpLiquiditySnap =
  id :: string
  lp :: Decimal
  basePoints :: Decimal
  timestamp :: int

record PerpLiquidity =
  account :: string
  lp :: Decimal
  start :: "PerpLiquiditySnap list"
  ended :: "PerpLiquiditySnap list"

record PerpLeaderboardSnap =
  tradingVolume :: Decimal
  conditionTradeVolume :: Decimal
  swap :: Decimal
  netProfit :: Decimal

text \<open>
  The field \<open>liquidity\<close> is declared as a \<open>PerpLiquidity\<close>, but the raw response may hold
  \<open>null\<close> there and \<open>calculateUserPoints\<close> tests \<open>if (lead.liquidity)\<close>: it is an option.
\<close>

record PerpLeaderboard =
  account :: string
  tradingVolume :: Decimal
  conditionTradeVolume :: Decimal
  swap :: Decimal
  netProfit :: Decimal
  latestUpdateTimestamp :: int
  start :: "PerpLeaderboardSnap list"
  ended :: "PerpLeaderboardSnap list"
  liquidity :: "PerpLiquidity option"

text \<open>
  \<open>CalculationConfig\<close> as \<open>index.ts\<close> declares it: three rates and no limit. TypeScript
  types are structural, so the calculator accepts any object that has at least these
  fields; the functions below take a record scheme for it.
\<close>

record CalculationConfig =
  liquidityRate :: Decimal
  tradeProfitRate :: Decimal
  tradeRate :: Decimal

text \<open>
  The configuration as the README documents it and as its quick-start example builds it:
  the three rates of \<open>CalculationConfig\<close> and a limit for each.
\<close>

record ReadmeConfig = CalculationConfig +
  liquidityLimit :: Decimal
  tradeProfitLimit :: Decimal
  tradeLimit :: Decimal

record UserPoints =
  account :: string
  lp_usd_hours :: Decimal
  volume_usd :: Decimal
  realized_pnl_net_usd :: Decimal

section \<open>The liquidity integrator\<close>

definition calculateLiquidityPointBase :: "PerpLiquidity \<Rightarrow> int \<Rightarrow> int \<Rightarrow> Decimal" where
  "calculateLiquidityPointBase liq startTime endTime =
     (case PerpLiquidity.ended liq of
        [] \<Rightarrow> 0
      | endSnap # _ \<Rightarrow>
          if PerpLiquiditySnap.timestamp endSnap < startTime then 0
          else
            let integral = PerpLiquiditySnap.basePoints endSnap;
                integral =
                  (if PerpLiquiditySnap.timestamp endSnap < endTime
                   then let delterPoint =
                              Decimal_mul (of_int (endTime - PerpLiquiditySnap.timestamp endSnap))
                                (PerpLiquiditySnap.lp endSnap)
                        in Decimal_add integral delterPoint
                   else integral)
            in (case PerpLiquidity.start liq of
                  [] \<Rightarrow> integral
                | startSnap # _ \<Rightarrow>
                    let beforeBasePoints = PerpLiquiditySnap.basePoints startSnap;
                        beforeBasePoints =
                          (if PerpLiquiditySnap.timestamp startSnap < startTime
                           then let delterPoint =
                                      Decimal_mul
                                        (of_int (startTime - PerpLiquiditySnap.timestamp startSnap))
                                        (PerpLiquiditySnap.lp startSnap)
                                in Decimal_add beforeBasePoints delterPoint
                           else beforeBasePoints)
                    in Decimal_sub integral beforeBasePoints))"

section \<open>The point aggregator\<close>

text \<open>
  \<open>userPointsOf\<close> is the arrow function \<open>lead => { ... }\<close> that \<open>calculateUserPoints\<close> maps
  over the leaderboards. The result record starts with every point field 0 and each block
  of the function assigns one field; \<open>liquidityPoints\<close> is the value \<open>result.lp_usd_hours\<close>
  ends with, and the local \<open>netProfit\<close> of the source is \<open>profit\<close> here (the name is
  taken by the record field).
\<close>

definition userPointsOf ::
  "'c CalculationConfig_scheme \<Rightarrow> int \<Rightarrow> int \<Rightarrow> bool \<Rightarrow> PerpLeaderboard \<Rightarrow> UserPoints" where
  "userPointsOf config startTime stopTime overtime lead =
     (let liquidityPoints =
            (case PerpLeaderboard.liquidity lead of
               None \<Rightarrow> 0
             | Some liq \<Rightarrow>
                 let baseIntegral = calculateLiquidityPointBase liq startTime stopTime;
                     liquidityPoint = Decimal_mul baseIntegral (liquidityRate config)
                 in if liquidityPoint < 0 then 0 else liquidityPoint);
          tradeVolume = PerpLeaderboard.tradingVolume lead;
          tradeVolume =
            (if overtime \<and> PerpLeaderboard.latestUpdateTimestamp lead > stopTime
                \<and> length (PerpLeaderboard.ended lead) > 0
             then PerpLeaderboardSnap.tradingVolume (PerpLeaderboard.ended lead ! 0)
             else tradeVolume);
          tradeVolume =
            (if length (PerpLeaderboard.start lead) > 0
             then Decimal_sub tradeVolume
                    (PerpLeaderboardSnap.tradingVolume (PerpLeaderboard.start lead ! 0))
             else tradeVolume);
          tradePoint = Decimal_mul tradeVolume (tradeRate config);
          profit = PerpLeaderboard.netProfit lead;
          profit =
            (if overtime \<and> PerpLeaderboard.latestUpdateTimestamp lead > stopTime
                \<and> length (PerpLeaderboard.ended lead) > 0
             then PerpLeaderboardSnap.netProfit (PerpLeaderboard.ended lead ! 0)
             else profit);
          profit =
            (if length (PerpLeaderboard.start lead) > 0
             then Decimal_sub profit
                    (PerpLeaderboardSnap.netProfit (PerpLeaderboard.start lead ! 0))
             else profit);
          tradeProfitPoint =
            (if profit > 0 then Decimal_mul profit (tradeProfitRate config) else 0)
      in \<lparr> UserPoints.account = PerpLeaderboard.account lead,
           lp_usd_hours = liquidityPoints,
           volume_usd = (if tradePoint < 0 then 0 else tradePoint),
           realized_pnl_net_usd = (if tradeProfitPoint < 0 then 0 else tradeProfitPoint) \<rparr>)"

definition calculateUserPoints ::
  "PerpLeaderboard list \<Rightarrow> 'c CalculationConfig_scheme \<Rightarrow> int \<Rightarrow> int \<Rightarrow> bool \<Rightarrow> UserPoints list" where
  "calculateUserPoints leaderboards config startTime stopTime overtime =
     map (userPointsOf config startTime stopTime overtime) leaderboards"

section \<open>Fixtures of the test suite\<close>

text \<open>The liquidity of the test "should calculate integral correctly within time segment".\<close>

definition segmentLiquidity :: PerpLiquidity where
  "segmentLiquidity =
     \<lparr> PerpLiquidity.account = ''test'', lp = 100,
       start = [\<lparr> PerpLiquiditySnap.id = ''1'', lp = 100, basePoints = 50, timestamp = 1000 \<rparr>],
       ended = [\<lparr> PerpLiquiditySnap.id = ''2'', lp = 200, basePoints = 100, timestamp = 1500 \<rparr>] \<rparr>"

text \<open>The empty liquidity that the tests give a user without liquidity.\<close>

definition emptyLiquidity :: "string \<Rightarrow> PerpLiquidity" where
  "emptyLiquidity a = \<lparr> PerpLiquidity.account = a, lp = 0, start = [], ended = [] \<rparr>"

text \<open>The leaderboard of the test "should apply trade limits correctly".\<close>

definition tradeLimitLead :: PerpLeaderboard where
  "tradeLimitLead =
     \<lparr> PerpLeaderboard.account = ''user1'', tradingVolume = 2000, conditionTradeVolume = 1000,
       swap = 200, netProfit = 1000, latestUpdateTimestamp = 1500, start = [], ended = [],
       liquidity = Some (emptyLiquidity ''user1'') \<rparr>"

text \<open>
  The configuration that test names in its comment: every rate 1, \<open>tradeLimit = 1500\<close> and
  \<open>tradeProfitLimit = 500\<close>; the liquidity limit is the one of the README's example.
\<close>

definition tradeLimitConfig :: ReadmeConfig where
  "tradeLimitConfig =
     \<lparr> liquidityRate = 1, tradeProfitRate = 1, tradeRate = 1,
       liquidityLimit = 10000, tradeProfitLimit = 500, tradeLimit = 1500 \<rparr>"

text \<open>The leaderboard of the test "should handle overtime scenario correctly".\<close>

definition overtimeLead :: PerpLeaderboard where
  "overtimeLead =
     \<lparr> PerpLeaderboard.account = ''user1'', tradingVolume = 1500, conditionTradeVolume = 750,
       swap = 200, netProfit = 80, latestUpdateTimestamp = 2500,
       start = [\<lparr> PerpLeaderboardSnap.tradingVolume = 200, conditionTradeVolume = 100,
                  swap = 50, netProfit = 10 \<rparr>],
       ended = [\<lparr> PerpLeaderboardSnap.tradingVolume = 1200, conditionTradeVolume = 600,
                  swap = 150, netProfit = 60 \<rparr>],
       liquidity = Some (emptyLiquidity ''user1'') \<rparr>"

definition defaultConfig :: CalculationConfig where
  "defaultConfig = \<lparr> liquidityRate = 1, tradeProfitRate = 1, tradeRate = 1 \<rparr>"

text \<open>The leaderboard of the test "should ensure all points are non-negative".\<close>

definition negativeLead :: PerpLeaderboard where
  "negativeLead =
     \<lparr> PerpLeaderboard.account = ''user1'', tradingVolume = - 100, conditionTradeVolume = 0,
       swap = 0, netProfit = - 100, latestUpdateTimestamp = 1500, start = [], ended = [],
       liquidity = Some (emptyLiquidity ''user1'') \<rparr>"

text \<open>
  The overtime leaderboard again, with other values in \<open>swap\<close> and \<open>conditionTradeVolume\<close>
  (of the record and of both snapshots) and in the \<open>lp\<close> of its liquidity.
\<close>

definition overtimeLeadVariant :: PerpLeaderboard where
  "overtimeLeadVariant =
     \<lparr> PerpLeaderboard.account = ''user1'', tradingVolume = 1500, conditionTradeVolume = 1,
       swap = 2, netProfit = 80, latestUpdateTimestamp = 2500,
       start = [\<lparr> PerpLeaderboardSnap.tradingVolume = 200, conditionTradeVolume = 3,
                  swap = 4, netProfit = 10 \<rparr>],
       ended = [\<lparr> PerpLeaderboardSnap.tradingVolume = 1200, conditionTradeVolume = 5,
                  swap = 6, netProfit = 60 \<rparr>],
       liquidity = Some ((emptyLiquidity ''user1'')\<lparr> PerpLiquidity.lp := 7 \<rparr>) \<rparr>"

section \<open>Inputs beyond 20 significant digits\<close>

text \<open>
  A liquidity whose running integral has 21 digits: both snapshots at the window's start
  1000 with basePoints 10^20, the ended one with lp 1.
\<close>

definition roundingStartSnap :: PerpLiquiditySnap where
  "roundingStartSnap =
     \<lparr> PerpLiquiditySnap.id = ''1'', lp = 0, basePoints = 100000000000000000000,
       timestamp = 1000 \<rparr>"

definition roundingEndSnap :: PerpLiquiditySnap where
  "roundingEndSnap =
     \<lparr> PerpLiquiditySnap.id = ''2'', lp = 1, basePoints = 100000000000000000000,
       timestamp = 1000 \<rparr>"

definition roundingLiquidity :: PerpLiquidity where
  "roundingLiquidity =
     \<lparr> PerpLiquidity.account = ''user1'', lp = 1,
       start = [roundingStartSnap], ended = [roundingEndSnap] \<rparr>"



section \<open>Records that differ only in fields the calculator never reads\<close>

text \<open>
  Two trading snapshots agree on \<open>tradingVolume\<close> and \<open>netProfit\<close> (they may differ in
  \<open>swap\<close> and \<open>conditionTradeVolume\<close>); two liquidity records agree on everything but
  their top-level \<open>lp\<close>; two leaderboards agree on everything but \<open>swap\<close>,
  \<open>conditionTradeVolume\<close> and those parts of their snapshots and liquidity.
\<close>

definition sameUsedSnapFields :: "PerpLeaderboardSnap \<Rightarrow> PerpLeaderboardSnap \<Rightarrow> bool" where
  "sameUsedSnapFields a b \<longleftrightarrow>
     PerpLeaderboardSnap.tradingVolume a = PerpLeaderboardSnap.tradingVolume b
     \<and> PerpLeaderboardSnap.netProfit a = PerpLeaderboardSnap.netProfit b"

definition sameUsedLiquidityFields :: "PerpLiquidity \<Rightarrow> PerpLiquidity \<Rightarrow> bool" where
  "sameUsedLiquidityFields a b \<longleftrightarrow>
     PerpLiquidity.account a = PerpLiquidity.account b
     \<and> PerpLiquidity.start a = PerpLiquidity.start b
     \<and> PerpLiquidity.ended a = PerpLiquidity.ended b"

definition differOnlyInUnusedFields :: "PerpLeaderboard \<Rightarrow> PerpLeaderboard \<Rightarrow> bool" where
  "differOnlyInUnusedFields a b \<longleftrightarrow>
     PerpLeaderboard.account a = PerpLeaderboard.account b
     \<and> PerpLeaderboard.tradingVolume a = PerpLeaderboard.tradingVolume b
     \<and> PerpLeaderboard.netProfit a = PerpLeaderboard.netProfit b
     \<and> PerpLeaderboard.latestUpdateTimestamp a = PerpLeaderboard.latestUpdateTimestamp b
     \<and> list_all2 sameUsedSnapFields (PerpLeaderboard.start a) (PerpLeaderboard.start b)
     \<and> list_all2 sameUsedSnapFields (PerpLeaderboard.ended a) (PerpLeaderboard.ended b)
     \<and> rel_option sameUsedLiquidityFields
           (PerpLeaderboard.liquidity a) (PerpLeaderboard.liquidity b)"

section \<open>The closed form of the integral, exact and rounded\<close>

text \<open>
  The running integral of a snapshot evaluated at time \<open>t\<close>: its basePoints, plus
  (t - timestamp) * lp when the snapshot lies before \<open>t\<close>. \<open>specIntegralAt\<close> is that value in
  exact arithmetic, \<open>decimalIntegralAt\<close> the same with the operations of decimal.js, and
  \<open>integralAtWithinPrecision\<close> says that the product and the sum of the exact value have
  at most 20 significant digits.
\<close>

definition specIntegralAt :: "PerpLiquiditySnap \<Rightarrow> int \<Rightarrow> rat" where
  "specIntegralAt snap t =
     PerpLiquiditySnap.basePoints snap
       + (if PerpLiquiditySnap.timestamp snap < t
          then of_int (t - PerpLiquiditySnap.timestamp snap) * PerpLiquiditySnap.lp snap
          else 0)"

definition decimalIntegralAt :: "PerpLiquiditySnap \<Rightarrow> int \<Rightarrow> Decimal" where
  "decimalIntegralAt snap t =
     (if PerpLiquiditySnap.timestamp snap < t
      then Decimal_add (PerpLiquiditySnap.basePoints snap)
             (Decimal_mul (of_int (t - PerpLiquiditySnap.timestamp snap))
                (PerpLiquiditySnap.lp snap))
      else PerpLiquiditySnap.basePoints snap)"

definition integralAtWithinPrecision :: "PerpLiquiditySnap \<Rightarrow> int \<Rightarrow> bool" where
  "integralAtWithinPrecision snap t \<longleftrightarrow>
     (PerpLiquiditySnap.timestamp snap < t \<longrightarrow>
        withinPrecision (of_int (t - PerpLiquiditySnap.timestamp snap) * PerpLiquiditySnap.lp snap)
        \<and> withinPrecision (specIntegralAt snap t))"

section \<open>Rounding: helper lemmas\<close>

declare roundSignificant.simps [simp del]

lemma floor_divide_numeral_rat:
  "\<lfloor>(numeral a :: rat) / numeral b\<rfloor> = numeral a div numeral b"
  using floor_divide_of_int_eq [of "numeral a" "numeral b", where ?'a = rat] by simp

lemmas Decimal_eval =
  Decimal_add_def Decimal_sub_def Decimal_mul_def finalise_def roundSignificant.simps
  floor_divide_numeral_rat









section \<open>Helper lemmas\<close>

lemma calculateUserPoints_length:
  "length (calculateUserPoints leaderboards config startTime stopTime overtime)
     = length leaderboards"
  by (simp add: calculateUserPoints_def)

lemma calculateUserPoints_nth:
  "i < length leaderboards \<Longrightarrow>
     calculateUserPoints leaderboards config startTime stopTime overtime ! i
       = userPointsOf config startTime stopTime overtime (leaderboards ! i)"
  by (simp add: calculateUserPoints_def)

lemma userPointsOf_account:
  "UserPoints.account (userPointsOf config startTime stopTime overtime lead)
     = PerpLeaderboard.account lead"
  by (simp add: userPointsOf_def Let_def)

lemma userPointsOf_lp_usd_hours:
  "lp_usd_hours (userPointsOf config startTime stopTime overtime lead)
     = (case PerpLeaderboard.liquidity lead of
          None \<Rightarrow> 0
        | Some liq \<Rightarrow>
            max 0 (Decimal_mul (calculateLiquidityPointBase liq startTime stopTime)
                     (liquidityRate config)))"
  by (simp add: userPointsOf_def Let_def max_def split: option.split)

lemma userPointsOf_volume_usd:
  "volume_usd (userPointsOf config startTime stopTime overtime lead)
     = (let base =
              (if overtime \<and> stopTime < PerpLeaderboard.latestUpdateTimestamp lead
                  \<and> PerpLeaderboard.ended lead \<noteq> []
               then PerpLeaderboardSnap.tradingVolume (PerpLeaderboard.ended lead ! 0)
               else PerpLeaderboard.tradingVolume lead);
            net =
              (if PerpLeaderboard.start lead \<noteq> []
               then Decimal_sub base
                      (PerpLeaderboardSnap.tradingVolume (PerpLeaderboard.start lead ! 0))
               else base)
        in max 0 (Decimal_mul net (tradeRate config)))"
  by (simp add: userPointsOf_def Let_def max_def)

lemma userPointsOf_realized_pnl_net_usd:
  "realized_pnl_net_usd (userPointsOf config startTime stopTime overtime lead)
     = (let base =
              (if overtime \<and> stopTime < PerpLeaderboard.latestUpdateTimestamp lead
                  \<and> PerpLeaderboard.ended lead \<noteq> []
               then PerpLeaderboardSnap.netProfit (PerpLeaderboard.ended lead ! 0)
               else PerpLeaderboard.netProfit lead);
            net =
              (if PerpLeaderboard.start lead \<noteq> []
               then Decimal_sub base
                      (PerpLeaderboardSnap.netProfit (PerpLeaderboard.start lead ! 0))
               else base)
        in if 0 < net then max 0 (Decimal_mul net (tradeProfitRate config)) else 0)"
  by (simp add: userPointsOf_def Let_def max_def)

lemma calculateLiquidityPointBase_cong:
  "sameUsedLiquidityFields a b \<Longrightarrow>
     calculateLiquidityPointBase a startTime endTime
       = calculateLiquidityPointBase b startTime endTime"
  by (simp add: calculateLiquidityPointBase_def sameUsedLiquidityFields_def split: list.split)

lemma decimalIntegralAt_exact:
  "integralAtWithinPrecision snap t \<Longrightarrow> decimalIntegralAt snap t = specIntegralAt snap t"
  by (auto simp add: integralAtWithinPrecision_def decimalIntegralAt_def specIntegralAt_def
        withinPrecision_def Decimal_add_def Decimal_mul_def)

lemma calculateLiquidityPointBase_decimalIntegralAt:
  assumes "PerpLiquidity.ended liq = endSnap # rest"
    and "windowStart \<le> PerpLiquiditySnap.timestamp endSnap"
  shows "calculateLiquidityPointBase liq windowStart windowEnd =
           (case PerpLiquidity.start liq of
              [] \<Rightarrow> decimalIntegralAt endSnap windowEnd
            | startSnap # _ \<Rightarrow>
                Decimal_sub (decimalIntegralAt endSnap windowEnd)
                  (decimalIntegralAt startSnap windowStart))"
  using assms
  by (simp add: calculateLiquidityPointBase_def decimalIntegralAt_def Let_def split: list.split)

lemma sameUsedSnapFields_first:
  assumes "list_all2 sameUsedSnapFields xs ys"
  shows "(xs = [] \<longleftrightarrow> ys = [])
         \<and> (xs \<noteq> [] \<longrightarrow>
              PerpLeaderboardSnap.tradingVolume (xs ! 0) = PerpLeaderboardSnap.tradingVolume (ys ! 0)
              \<and> PerpLeaderboardSnap.netProfit (xs ! 0) = PerpLeaderboardSnap.netProfit (ys ! 0))"
  using assms by (cases xs; cases ys) (simp_all add: sameUsedSnapFields_def)

lemma userPointsOf_cong:
  assumes "differOnlyInUnusedFields a b"
  shows "userPointsOf config startTime stopTime overtime a
           = userPointsOf config startTime stopTime overtime b"
proof (rule UserPoints.equality)
  note s = sameUsedSnapFields_first [of "PerpLeaderboard.start a" "PerpLeaderboard.start b"]
  note e = sameUsedSnapFields_first [of "PerpLeaderboard.ended a" "PerpLeaderboard.ended b"]
  from assms have st: "list_all2 sameUsedSnapFields (PerpLeaderboard.start a) (PerpLeaderboard.start b)"
    and en: "list_all2 sameUsedSnapFields (PerpLeaderboard.ended a) (PerpLeaderboard.ended b)"
    and tv: "PerpLeaderboard.tradingVolume a = PerpLeaderboard.tradingVolume b"
    and np: "PerpLeaderboard.netProfit a = PerpLeaderboard.netProfit b"
    and ts: "PerpLeaderboard.latestUpdateTimestamp a = PerpLeaderboard.latestUpdateTimestamp b"
    and ac: "PerpLeaderboard.account a = PerpLeaderboard.account b"
    and lq: "rel_option sameUsedLiquidityFields
               (PerpLeaderboard.liquidity a) (PerpLeaderboard.liquidity b)"
    by (simp_all add: differOnlyInUnusedFields_def)
  show "UserPoints.account (userPointsOf config startTime stopTime overtime a)
          = UserPoints.account (userPointsOf config startTime stopTime overtime b)"
    by (simp add: userPointsOf_account ac)
  show "lp_usd_hours (userPointsOf config startTime stopTime overtime a)
          = lp_usd_hours (userPointsOf config startTime stopTime overtime b)"
    using lq
    by (cases "PerpLeaderboard.liquidity a"; cases "PerpLeaderboard.liquidity b")
       (simp_all add: userPointsOf_lp_usd_hours calculateLiquidityPointBase_cong)
  show "volume_usd (userPointsOf config startTime stopTime overtime a)
          = volume_usd (userPointsOf config startTime stopTime overtime b)"
    using s [OF st] e [OF en] by (simp add: userPointsOf_volume_usd tv ts cong: if_cong)
  show "realized_pnl_net_usd (userPointsOf config startTime stopTime overtime a)
          = realized_pnl_net_usd (userPointsOf config startTime stopTime overtime b)"
    using s [OF st] e [OF en]
    by (simp add: userPointsOf_realized_pnl_net_usd np ts cong: if_cong)
  show "UserPoints.more (userPointsOf config startTime stopTime overtime a)
          = UserPoints.more (userPointsOf config startTime stopTime overtime b)"
    by simp
qed

section \<open>The liquidity integrator: properties\<close>

text \<open>
  C1. For the liquidity with start snapshot (lp 100, basePoints 50, timestamp 1000) and
  ended snapshot (lp 200, basePoints 100, timestamp 1500), the test suite and the
  specification expect \<open>calculateLiquidityPointBase\<close> on the window [1200, 1400] to return
  30000. The function returns -19950 there: the ended snapshot lies after the window's
  end, so nothing is added to its basePoints 100, and the start snapshot's running
  integral 50 + (1200 - 1000) * 100 = 20050 is subtracted.
\<close>

theorem calculateLiquidityPointBase_segment_value:
  "calculateLiquidityPointBase segmentLiquidity 1200 1400 = - 19950
   \<and> calculateLiquidityPointBase segmentLiquidity 1200 1400 \<noteq> 30000"
  by (simp add: calculateLiquidityPointBase_def segmentLiquidity_def Decimal_eval)

text \<open>
  C3. For every liquidity record whose ended snapshot exists and has a timestamp at or
  after the window's start, \<open>calculateLiquidityPointBase\<close> returns E when there is no start
  snapshot and E minus S otherwise. E is the ended snapshot's basePoints, plus
  (windowEnd - ended.timestamp) * ended.lp when the snapshot lies before the window's end;
  S is the start snapshot's basePoints, plus (windowStart - start.timestamp) * start.lp
  when that snapshot lies before the window's start. Every plus, times and minus is the
  operation of decimal.js, which rounds its result to 20 significant digits. When each of
  these results has at most 20 significant digits, the value is the exact E - S (with S = 0
  when there is no start snapshot).
\<close>

theorem calculateLiquidityPointBase_rounded_closed_form:
  assumes "PerpLiquidity.ended liq = endSnap # rest"
    and "windowStart \<le> PerpLiquiditySnap.timestamp endSnap"
  shows "calculateLiquidityPointBase liq windowStart windowEnd =
           (case PerpLiquidity.start liq of
              [] \<Rightarrow> decimalIntegralAt endSnap windowEnd
            | startSnap # _ \<Rightarrow>
                Decimal_sub (decimalIntegralAt endSnap windowEnd)
                  (decimalIntegralAt startSnap windowStart))
         \<and> (integralAtWithinPrecision endSnap windowEnd
              \<and> (\<forall>startSnap others. PerpLiquidity.start liq = startSnap # others \<longrightarrow>
                     integralAtWithinPrecision startSnap windowStart
                     \<and> withinPrecision (specIntegralAt endSnap windowEnd
                                          - specIntegralAt startSnap windowStart))
            \<longrightarrow> calculateLiquidityPointBase liq windowStart windowEnd =
                  specIntegralAt endSnap windowEnd
                  - (case PerpLiquidity.start liq of
                       [] \<Rightarrow> 0
                     | startSnap # _ \<Rightarrow> specIntegralAt startSnap windowStart))"
proof (cases "PerpLiquidity.start liq")
  case Nil
  then show ?thesis
    using calculateLiquidityPointBase_decimalIntegralAt [OF assms, of windowEnd]
    by (simp add: decimalIntegralAt_exact)
next
  case (Cons startSnap others)
  then show ?thesis
    using calculateLiquidityPointBase_decimalIntegralAt [OF assms, of windowEnd]
    by (simp add: decimalIntegralAt_exact Decimal_sub_def withinPrecision_def)
qed

theorem calculateLiquidityPointBase_rounded_closed_form_witness:
  "calculateLiquidityPointBase segmentLiquidity 1200 1800 = 40050
   \<and> calculateLiquidityPointBase roundingLiquidity 1000 1001 = 0"
proof -
  have e: "PerpLiquidity.ended segmentLiquidity
             = \<lparr> PerpLiquiditySnap.id = ''2'', lp = 200, basePoints = 100, timestamp = 1500 \<rparr> # []"
    and s: "PerpLiquidity.start segmentLiquidity
             = [\<lparr> PerpLiquiditySnap.id = ''1'', lp = 100, basePoints = 50, timestamp = 1000 \<rparr>]"
    by (simp_all add: segmentLiquidity_def)
  have t: "1200 \<le> PerpLiquiditySnap.timestamp
             \<lparr> PerpLiquiditySnap.id = ''2'', lp = 200, basePoints = 100, timestamp = 1500 \<rparr>"
    by simp
  have p: "integralAtWithinPrecision
             \<lparr> PerpLiquiditySnap.id = ''2'', lp = 200, basePoints = 100, timestamp = 1500 \<rparr> 1800"
          "integralAtWithinPrecision
             \<lparr> PerpLiquiditySnap.id = ''1'', lp = 100, basePoints = 50, timestamp = 1000 \<rparr> 1200"
          "withinPrecision 40050"
    by (simp_all add: integralAtWithinPrecision_def withinPrecision_def specIntegralAt_def
          Decimal_eval)
  have v: "specIntegralAt
             \<lparr> PerpLiquiditySnap.id = ''2'', lp = 200, basePoints = 100, timestamp = 1500 \<rparr> 1800
           - specIntegralAt
               \<lparr> PerpLiquiditySnap.id = ''1'', lp = 100, basePoints = 50, timestamp = 1000 \<rparr> 1200
           = 40050"
    by (simp add: specIntegralAt_def)
  have e': "PerpLiquidity.ended roundingLiquidity = roundingEndSnap # []"
    and s': "PerpLiquidity.start roundingLiquidity = [roundingStartSnap]"
    and t': "1000 \<le> PerpLiquiditySnap.timestamp roundingEndSnap"
    by (simp_all add: roundingLiquidity_def roundingEndSnap_def)
  have d: "Decimal_sub (decimalIntegralAt roundingEndSnap 1001)
             (decimalIntegralAt roundingStartSnap 1000) = 0"
    by (simp add: decimalIntegralAt_def roundingEndSnap_def roundingStartSnap_def Decimal_eval)
  from calculateLiquidityPointBase_rounded_closed_form [OF e t, of 1800]
       calculateLiquidityPointBase_rounded_closed_form [OF e' t', of 1001]
  show ?thesis
    by (simp add: s s' p v d)
qed

text \<open>
  C3 with exact arithmetic fails beyond 20 digits. Both snapshots at the window's start
  1000 with basePoints 10^20, the ended one with lp 1, window [1000, 1001]: the exact
  E - S is (10^20 + 1) - 10^20 = 1, and the function returns 0, because the sum
  10^20 + 1 has 21 digits and is rounded to 10^20.
\<close>

theorem calculateLiquidityPointBase_exact_closed_form_counterexample:
  "PerpLiquidity.ended roundingLiquidity = [roundingEndSnap]
   \<and> PerpLiquidity.start roundingLiquidity = [roundingStartSnap]
   \<and> 1000 \<le> PerpLiquiditySnap.timestamp roundingEndSnap
   \<and> specIntegralAt roundingEndSnap 1001 - specIntegralAt roundingStartSnap 1000 = 1
   \<and> calculateLiquidityPointBase roundingLiquidity 1000 1001 = 0
   \<and> calculateLiquidityPointBase roundingLiquidity 1000 1001
       \<noteq> specIntegralAt roundingEndSnap 1001 - specIntegralAt roundingStartSnap 1000"
  by (simp add: calculateLiquidityPointBase_def roundingLiquidity_def roundingEndSnap_def
        roundingStartSnap_def specIntegralAt_def Decimal_eval)

text \<open>
  C7. \<open>calculateLiquidityPointBase\<close> returns exactly 0 when the ended snapshot is absent,
  and when it exists with a timestamp before the window's start.
\<close>

theorem calculateLiquidityPointBase_zero:
  "(PerpLiquidity.ended liq = [] \<longrightarrow> calculateLiquidityPointBase liq windowStart windowEnd = 0)
   \<and> (\<forall>endSnap rest. PerpLiquidity.ended liq = endSnap # rest
          \<and> PerpLiquiditySnap.timestamp endSnap < windowStart
        \<longrightarrow> calculateLiquidityPointBase liq windowStart windowEnd = 0)"
  by (simp add: calculateLiquidityPointBase_def)

theorem calculateLiquidityPointBase_zero_witness:
  "calculateLiquidityPointBase (emptyLiquidity ''user1'') 1000 2000 = 0
   \<and> calculateLiquidityPointBase segmentLiquidity 1501 2000 = 0"
  using calculateLiquidityPointBase_zero [of "emptyLiquidity ''user1''" 1000 2000]
        calculateLiquidityPointBase_zero [of segmentLiquidity 1501 2000]
  by (simp add: emptyLiquidity_def segmentLiquidity_def)

section \<open>The point aggregator: properties\<close>

text \<open>
  C9. \<open>calculateUserPoints\<close> returns one result per input record: the output has the
  length of the input, and the accounts of the output are the accounts of the input,
  position by position (records of one account are neither merged nor dropped).
\<close>

theorem calculateUserPoints_order_preserved:
  "length (calculateUserPoints leaderboards config startTime stopTime overtime)
     = length leaderboards
   \<and> map UserPoints.account (calculateUserPoints leaderboards config startTime stopTime overtime)
     = map PerpLeaderboard.account leaderboards"
  by (simp add: calculateUserPoints_def userPointsOf_account)

text \<open>
  C4. When \<open>overtime\<close> is true, the record's latestUpdateTimestamp is after \<open>stopTime\<close>
  and an ended trading snapshot exists, the trade points and the trade-profit points of the
  record are computed from the ended snapshot's tradingVolume and netProfit; in every other
  case they are computed from the record's top-level tradingVolume and netProfit. The
  computation \<open>tradePoints\<close> (and \<open>profitPoints\<close>) is the same in both cases: the start
  snapshot's value, when there is one, is subtracted, the difference is multiplied by the
  rate and the product is clamped at 0 (for the profit, only a positive difference is
  multiplied), with the subtraction and multiplication of decimal.js.
\<close>

theorem calculateUserPoints_overtime_substitution:
  assumes "i < length leaderboards"
    and "lead = leaderboards ! i"
    and "r = calculateUserPoints leaderboards config startTime stopTime overtime ! i"
    and "tradePoints = (\<lambda>endVolume.
           max 0 (Decimal_mul
                    (case PerpLeaderboard.start lead of
                       [] \<Rightarrow> endVolume
                     | s # _ \<Rightarrow> Decimal_sub endVolume (PerpLeaderboardSnap.tradingVolume s))
                    (tradeRate config)))"
    and "profitPoints = (\<lambda>endProfit.
           let net = (case PerpLeaderboard.start lead of
                        [] \<Rightarrow> endProfit
                      | s # _ \<Rightarrow> Decimal_sub endProfit (PerpLeaderboardSnap.netProfit s))
           in if 0 < net then max 0 (Decimal_mul net (tradeProfitRate config)) else 0)"
  shows "(overtime \<and> stopTime < PerpLeaderboard.latestUpdateTimestamp lead
            \<and> PerpLeaderboard.ended lead \<noteq> [] \<longrightarrow>
          volume_usd r
            = tradePoints (PerpLeaderboardSnap.tradingVolume (PerpLeaderboard.ended lead ! 0))
          \<and> realized_pnl_net_usd r
            = profitPoints (PerpLeaderboardSnap.netProfit (PerpLeaderboard.ended lead ! 0)))
         \<and> (\<not> (overtime \<and> stopTime < PerpLeaderboard.latestUpdateTimestamp lead
                  \<and> PerpLeaderboard.ended lead \<noteq> []) \<longrightarrow>
          volume_usd r = tradePoints (PerpLeaderboard.tradingVolume lead)
          \<and> realized_pnl_net_usd r = profitPoints (PerpLeaderboard.netProfit lead))"
proof -
  have r: "r = userPointsOf config startTime stopTime overtime lead"
    using assms(1-3) by (simp add: calculateUserPoints_nth)
  show ?thesis
    unfolding r userPointsOf_volume_usd userPointsOf_realized_pnl_net_usd assms(4,5)
    by (cases "PerpLeaderboard.start lead") (simp_all add: Let_def)
qed

theorem calculateUserPoints_overtime_substitution_witness:
  "volume_usd (calculateUserPoints [overtimeLead] defaultConfig 1000 1500 True ! 0) = 1000
   \<and> realized_pnl_net_usd (calculateUserPoints [overtimeLead] defaultConfig 1000 1500 True ! 0) = 50
   \<and> volume_usd (calculateUserPoints [overtimeLead] defaultConfig 1000 1500 False ! 0) = 1300
   \<and> realized_pnl_net_usd (calculateUserPoints [overtimeLead] defaultConfig 1000 1500 False ! 0) = 70"
proof -
  have i: "0 < length [overtimeLead]" and l: "overtimeLead = [overtimeLead] ! 0"
    by simp_all
  have st: "PerpLeaderboard.start overtimeLead
              = [\<lparr> PerpLeaderboardSnap.tradingVolume = 200, conditionTradeVolume = 100,
                    swap = 50, netProfit = 10 \<rparr>]"
    and en: "PerpLeaderboard.ended overtimeLead \<noteq> []"
    and e0: "PerpLeaderboardSnap.tradingVolume (PerpLeaderboard.ended overtimeLead ! 0) = 1200"
            "PerpLeaderboardSnap.netProfit (PerpLeaderboard.ended overtimeLead ! 0) = 60"
    and ts: "PerpLeaderboard.latestUpdateTimestamp overtimeLead = 2500"
    and top: "PerpLeaderboard.tradingVolume overtimeLead = 1500"
             "PerpLeaderboard.netProfit overtimeLead = 80"
    by (simp_all add: overtimeLead_def)
  have rt: "tradeRate defaultConfig = 1" "tradeProfitRate defaultConfig = 1"
    by (simp_all add: defaultConfig_def)
  from calculateUserPoints_overtime_substitution
         [where config = defaultConfig and startTime = 1000 and stopTime = 1500
            and overtime = True, OF i l refl refl refl]
       calculateUserPoints_overtime_substitution
         [where config = defaultConfig and startTime = 1000 and stopTime = 1500
            and overtime = False, OF i l refl refl refl]
  show ?thesis
    by (simp add: st en e0 ts top rt Decimal_eval)
qed






text \<open>
  C6. Each of the three point fields of every element of the output of
  \<open>calculateUserPoints\<close> is at least 0. This holds for every input, whatever the sign of the
  rates and the order of the window's bounds.
\<close>

theorem calculateUserPoints_nonnegative:
  "\<forall>r \<in> set (calculateUserPoints leaderboards config startTime stopTime overtime).
     0 \<le> lp_usd_hours r \<and> 0 \<le> volume_usd r \<and> 0 \<le> realized_pnl_net_usd r"
proof
  fix r
  assume "r \<in> set (calculateUserPoints leaderboards config startTime stopTime overtime)"
  then obtain lead where r: "r = userPointsOf config startTime stopTime overtime lead"
    by (auto simp add: calculateUserPoints_def)
  have "0 \<le> lp_usd_hours r"
    unfolding r userPointsOf_lp_usd_hours by (simp split: option.split)
  moreover have "0 \<le> volume_usd r"
    unfolding r userPointsOf_volume_usd by (simp add: Let_def)
  moreover have "0 \<le> realized_pnl_net_usd r"
    unfolding r userPointsOf_realized_pnl_net_usd by (simp add: Let_def)
  ultimately show "0 \<le> lp_usd_hours r \<and> 0 \<le> volume_usd r \<and> 0 \<le> realized_pnl_net_usd r"
    by simp
qed

theorem calculateUserPoints_nonnegative_witness:
  "0 \<le> lp_usd_hours (calculateUserPoints [negativeLead] defaultConfig 1000 1500 False ! 0)
   \<and> 0 \<le> volume_usd (calculateUserPoints [negativeLead] defaultConfig 1000 1500 False ! 0)
   \<and> 0 \<le> realized_pnl_net_usd (calculateUserPoints [negativeLead] defaultConfig 1000 1500 False ! 0)"
proof -
  have "calculateUserPoints [negativeLead] defaultConfig 1000 1500 False ! 0
          \<in> set (calculateUserPoints [negativeLead] defaultConfig 1000 1500 False)"
    by (simp add: calculateUserPoints_length)
  with calculateUserPoints_nonnegative [of "[negativeLead]" defaultConfig 1000 1500 False]
  show ?thesis by blast
qed

text \<open>
  C2. The README and the tests "should apply liquidity limit correctly" and "should apply
  trade limits correctly" say that a point value is capped at its configured limit, that
  is min(value, limit). \<open>calculateUserPoints\<close> reads the three rates only and never a limit:
  for the leaderboard of the second test (tradingVolume 2000, netProfit 1000, every rate 1)
  and a configuration with tradeLimit 1500 and tradeProfitLimit 500 it returns trade points
  2000 and trade-profit points 1000, where the test expects 1500 and 500.
\<close>

theorem calculateUserPoints_exceeds_limits:
  "calculateUserPoints [tradeLimitLead] tradeLimitConfig 1000 1500 False
     = [\<lparr> UserPoints.account = ''user1'', lp_usd_hours = 0, volume_usd = 2000,
           realized_pnl_net_usd = 1000 \<rparr>]
   \<and> tradeLimit tradeLimitConfig = 1500 \<and> tradeLimit tradeLimitConfig < 2000
   \<and> tradeProfitLimit tradeLimitConfig = 500 \<and> tradeProfitLimit tradeLimitConfig < 1000"
  by (simp add: calculateUserPoints_def userPointsOf_def calculateLiquidityPointBase_def
        tradeLimitLead_def tradeLimitConfig_def emptyLiquidity_def Decimal_eval)

text \<open>
  C10. Two inputs whose records differ only in \<open>swap\<close>, \<open>conditionTradeVolume\<close>, the
  top-level \<open>lp\<close> of the liquidity and the \<open>swap\<close> and \<open>conditionTradeVolume\<close> of the
  start and ended trading snapshots give the same output of \<open>calculateUserPoints\<close>.
\<close>

theorem calculateUserPoints_ignores_unused_fields:
  assumes "list_all2 differOnlyInUnusedFields leaderboards leaderboards'"
  shows "calculateUserPoints leaderboards config startTime stopTime overtime
           = calculateUserPoints leaderboards' config startTime stopTime overtime"
  using assms unfolding calculateUserPoints_def
  by (induction rule: list_all2_induct) (simp_all add: userPointsOf_cong)

theorem calculateUserPoints_ignores_unused_fields_witness:
  "list_all2 differOnlyInUnusedFields [overtimeLead] [overtimeLeadVariant]
   \<and> overtimeLead \<noteq> overtimeLeadVariant
   \<and> calculateUserPoints [overtimeLead] defaultConfig 1000 1500 True
       = calculateUserPoints [overtimeLeadVariant] defaultConfig 1000 1500 True"
proof -
  have d: "list_all2 differOnlyInUnusedFields [overtimeLead] [overtimeLeadVariant]"
    by (simp add: differOnlyInUnusedFields_def sameUsedSnapFields_def
          sameUsedLiquidityFields_def overtimeLead_def overtimeLeadVariant_def emptyLiquidity_def)
  have n: "overtimeLead \<noteq> overtimeLeadVariant"
    by (simp add: overtimeLead_def overtimeLeadVariant_def)
  from d n calculateUserPoints_ignores_unused_fields [OF d]
  show ?thesis by simp
qed

end
